theory Spec2Isabelle
  imports Complex_Main "HOL-Library.AList" "HOL-Library.Word" "HOL-Library.List_Lexorder"
    "HOL-Library.Char_ord" "HOL-Library.Multiset"
begin

section \<open>Data model\<close>

text \<open>
  Python values that occur in a weather observation (\<open>Dict[str, Any]\<close>). A finite float
  is modelled by the rational number it denotes; \<open>round\<close>, comparisons and \<open>max\<close> are
  exact on them. The float \<open>-0.0\<close> is a value of its own (\<open>PNegZero\<close>): it compares equal
  to \<open>0.0\<close> but is written differently; \<open>PFloat 0\<close> is \<open>0.0\<close>. Infinities and \<open>nan\<close> are
  left out. A dictionary is an association list with distinct keys, in insertion order.
\<close>

datatype pyval = PNone | PBool bool | PInt int | PFloat rat | PNegZero | PStr string

type_synonym pydict = "(string \<times> pyval) list"

text \<open>
  A location is a \<open>Dict[str, float]\<close>; where a float is expected Python takes an \<open>int\<close>
  as well, and the two are rounded and written differently.
\<close>

datatype pynum = NInt int | NFloat rat | NNegZero

type_synonym location_dict = "(string \<times> pynum) list"

definition to_pyval :: "pynum \<Rightarrow> pyval" where
  "to_pyval x = (case x of NInt i \<Rightarrow> PInt i | NFloat r \<Rightarrow> PFloat r | NNegZero \<Rightarrow> PNegZero)"

text \<open>The exceptions the modelled code raises or lets through.\<close>

datatype exn =
  ValueError string | TypeError string | KeyError string | InferenceError string
  | RedisError string

text \<open>
  \<open>np.mean\<close> returns a float; on an empty list it returns \<open>nan\<close> (with a warning) and does
  not raise.
\<close>

datatype npfloat = Finite rat | NaN

definition np_mean :: "rat list \<Rightarrow> npfloat" where
  "np_mean xs = (if xs = [] then NaN else Finite (sum_list xs / of_nat (length xs)))"

text \<open>
  A prediction result is a dictionary with a fixed vocabulary of keys; a field is \<open>None\<close>
  when the key is absent. The wall-clock entries (\<open>execution_time\<close>, \<open>timestamp\<close>,
  \<open>forecast_time\<close>, \<open>cached_at\<close>) are not functions of the inputs and are left out.
\<close>

record result =
  probability :: "rat option"
  prediction :: "int option"
  confidence :: "string option"
  model_used :: "string option"
  location :: "location_dict option"
  weather_conditions :: "string option"
  recommendation :: "string option"
  cached :: "bool option"
  error :: "string option"
  batch_index :: "nat option"
  forecast_hour :: "int option"

definition empty_result :: result where
  "empty_result =
     \<lparr>probability = None, prediction = None, confidence = None, model_used = None,
      location = None, weather_conditions = None, recommendation = None, cached = None,
      error = None, batch_index = None, forecast_hour = None\<rparr>"

text \<open>\<open>p.get('probability', 0)\<close> and \<open>p.get('forecast_hour', 0)\<close>.\<close>

definition get_probability :: "result \<Rightarrow> rat" where
  "get_probability p = (case probability p of None \<Rightarrow> 0 | Some x \<Rightarrow> x)"

definition get_forecast_hour :: "result \<Rightarrow> int" where
  "get_forecast_hour p = (case forecast_hour p of None \<Rightarrow> 0 | Some h \<Rightarrow> h)"

section \<open>Forecast window analyzer (\<open>_find_peak_probability_windows\<close>)\<close>

record window =
  start_hour :: int
  end_hour :: int
  max_probability :: rat
  avg_probability :: npfloat
  duration :: int

definition peak_threshold :: rat where
  "peak_threshold = 1 / 2"

text \<open>The predictions of the whole input whose hour lies in the window's boundaries.\<close>

definition window_predictions :: "result list \<Rightarrow> window \<Rightarrow> result list" where
  "window_predictions predictions w =
     filter (\<lambda>p. start_hour w \<le> get_forecast_hour p \<and> get_forecast_hour p \<le> end_hour w)
       predictions"

definition close_window :: "result list \<Rightarrow> window \<Rightarrow> window" where
  "close_window predictions w =
     w\<lparr>avg_probability := np_mean (map get_probability (window_predictions predictions w))\<rparr>"

text \<open>
  The \<open>for\<close> loop, with the list still to scan, the windows appended so far and the open
  window; the first argument is the whole input, which closing a window filters again.
\<close>

fun scan_windows ::
  "result list \<Rightarrow> result list \<Rightarrow> window list \<Rightarrow> window option \<Rightarrow> window list" where
  "scan_windows predictions [] windows current =
     (case current of
        None \<Rightarrow> windows
      | Some w \<Rightarrow> windows @ [close_window predictions w])"
| "scan_windows predictions (p # rest) windows current =
     (if get_probability p \<ge> peak_threshold then
        (case current of
           None \<Rightarrow>
             scan_windows predictions rest windows
               (Some \<lparr>start_hour = get_forecast_hour p, end_hour = get_forecast_hour p,
                      max_probability = get_probability p,
                      avg_probability = Finite (get_probability p), duration = 1\<rparr>)
         | Some w \<Rightarrow>
             scan_windows predictions rest windows
               (Some (w\<lparr>end_hour := get_forecast_hour p,
                        max_probability := max (max_probability w) (get_probability p),
                        duration := duration w + 1\<rparr>)))
      else
        (case current of
           None \<Rightarrow> scan_windows predictions rest windows None
         | Some w \<Rightarrow> scan_windows predictions rest (windows @ [close_window predictions w]) None))"

definition find_peak_probability_windows :: "result list \<Rightarrow> window list" where
  "find_peak_probability_windows predictions = scan_windows predictions predictions [] None"

text \<open>An hourly prediction as the analyzer reads it: the two keys it looks up.\<close>

definition hourly :: "int \<Rightarrow> rat \<Rightarrow> result" where
  "hourly h p = empty_result\<lparr>probability := Some p, forecast_hour := Some h\<rparr>"

text \<open>Each hour of the list is the hour before it plus one.\<close>

fun consecutive_hours :: "result list \<Rightarrow> bool" where
  "consecutive_hours [] = True"
| "consecutive_hours [p] = True"
| "consecutive_hours (p # q # rest) =
     (get_forecast_hour q = get_forecast_hour p + 1 \<and> consecutive_hours (q # rest))"

text \<open>The two invariants of a window: its average and its duration.\<close>

definition avg_ok :: "result list \<Rightarrow> window \<Rightarrow> bool" where
  "avg_ok ps w =
     (avg_probability w = np_mean (map get_probability (window_predictions ps w)))"

definition duration_ok :: "window \<Rightarrow> bool" where
  "duration_ok w = (duration w = end_hour w - start_hour w + 1)"

text \<open>
  The open window satisfies the duration invariant, and the next prediction to scan, if
  any, is one hour after the window's end.
\<close>

fun next_hour_ok :: "window option \<Rightarrow> result list \<Rightarrow> bool" where
  "next_hour_ok None rest = True"
| "next_hour_ok (Some w) [] = duration_ok w"
| "next_hour_ok (Some w) (p # rest) =
     (duration_ok w \<and> get_forecast_hour p = end_hour w + 1)"

text \<open>
  The windows described from the input rather than by the scan. A run is a maximal
  stretch of neighbouring predictions at or above the threshold; \<open>peak_runs\<close> lists the
  runs in order. The window of a run starts at the hour of its first prediction, ends at
  the hour of its last, carries the largest probability of the run and counts the run's
  predictions; \<open>open_window\<close> is that window while it is still open.
\<close>

definition at_peak :: "result \<Rightarrow> bool" where
  "at_peak p = (get_probability p \<ge> peak_threshold)"

function peak_runs :: "result list \<Rightarrow> result list list" where
  "peak_runs [] = []"
| "peak_runs (p # ps) =
     (if at_peak p then (p # takeWhile at_peak ps) # peak_runs (dropWhile at_peak ps)
      else peak_runs ps)"
  by pat_completeness auto
termination
  by (relation "measure length") (auto simp: length_dropWhile_le less_Suc_eq_le)

definition run_window :: "result list \<Rightarrow> result list \<Rightarrow> window" where
  "run_window predictions run =
     \<lparr>start_hour = get_forecast_hour (hd run),
      end_hour = get_forecast_hour (last run),
      max_probability = Max (set (map get_probability run)),
      avg_probability =
        np_mean (map get_probability
          (filter (\<lambda>p. get_forecast_hour (hd run) \<le> get_forecast_hour p \<and>
                       get_forecast_hour p \<le> get_forecast_hour (last run)) predictions)),
      duration = int (length run)\<rparr>"

definition open_window :: "result list \<Rightarrow> window" where
  "open_window run =
     \<lparr>start_hour = get_forecast_hour (hd run),
      end_hour = get_forecast_hour (last run),
      max_probability = Max (set (map get_probability run)),
      avg_probability = Finite (get_probability (hd run)),
      duration = int (length run)\<rparr>"

section \<open>Inference engine (\<open>RainbowPredictor.predict\<close>)\<close>

text \<open>
  The predictor's state as \<open>predict\<close> reads it. A classifier is the external library's
  \<open>predict_proba(X)[0, 1]\<close>: the positive-class probability of one feature vector, or an
  exception. \<open>transform_single_prediction\<close> is the feature engineering of one observation
  (pandas code that also reads the clock when the observation has no timestamp); it is a
  parameter here and returns the transformed record, or raises. \<open>scaler_transform\<close> is
  \<open>self.scalers['standard'].transform\<close>.
\<close>

type_synonym classifier = "rat list \<Rightarrow> exn + rat"

record rainbow_predictor =
  best_model_name :: "string option"
  models :: "(string \<times> classifier) list"
  feature_names :: "string list"
  transform_single_prediction :: "pydict \<Rightarrow> exn + (string \<times> rat) list"
  scaler_transform :: "rat list \<Rightarrow> exn + rat list"

text \<open>\<open>features.get(feature_name, 0)\<close>.\<close>

definition features_get :: "(string \<times> rat) list \<Rightarrow> string \<Rightarrow> rat" where
  "features_get features n = (case map_of features n of None \<Rightarrow> 0 | Some v \<Rightarrow> v)"

text \<open>The loop that appends one entry per trained feature name.\<close>

fun build_feature_vector :: "(string \<times> rat) list \<Rightarrow> string list \<Rightarrow> rat list \<Rightarrow> rat list" where
  "build_feature_vector features [] feature_vector = feature_vector"
| "build_feature_vector features (n # ns) feature_vector =
     build_feature_vector features ns (feature_vector @ [features_get features n])"

definition confidence_of :: "rat \<Rightarrow> string" where
  "confidence_of p = (if p > 7 / 10 \<or> p < 3 / 10 then ''high'' else ''medium'')"

text \<open>
  \<open>predict\<close>, with the configured \<open>PREDICTION_THRESHOLD\<close> as first argument. A falsy
  \<open>best_model_name\<close> is \<open>None\<close> or the empty string.
\<close>

definition predict :: "rat \<Rightarrow> rainbow_predictor \<Rightarrow> pydict \<Rightarrow> exn + result" where
  "predict threshold pr weather_data =
     (case best_model_name pr of
        None \<Rightarrow> Inl (ValueError ''No trained model available'')
      | Some name \<Rightarrow>
          if name = [] then Inl (ValueError ''No trained model available'')
          else
            (case map_of (models pr) name of
               None \<Rightarrow> Inl (ValueError ''No trained model available'')
             | Some model \<Rightarrow>
                 (case transform_single_prediction pr weather_data of
                    Inl e \<Rightarrow> Inl e
                  | Inr features \<Rightarrow>
                      (case (if name \<in> set [''logistic_regression'', ''neural_network'']
                             then scaler_transform pr
                                    (build_feature_vector features (feature_names pr) [])
                             else Inr (build_feature_vector features (feature_names pr) []))
                       of
                         Inl e \<Rightarrow> Inl e
                       | Inr X \<Rightarrow>
                           (case model X of
                              Inl e \<Rightarrow> Inl e
                            | Inr p \<Rightarrow>
                                Inr (empty_result
                                  \<lparr>probability := Some p,
                                   prediction := Some (if p \<ge> threshold then 1 else 0),
                                   confidence := Some (confidence_of p),
                                   model_used := Some name\<rparr>))))))"

text \<open>The library contract of a classifier: what it returns is a probability.\<close>

definition returns_probabilities :: "classifier \<Rightarrow> bool" where
  "returns_probabilities model = (\<forall>X p. model X = Inr p \<longrightarrow> 0 \<le> p \<and> p \<le> 1)"

section \<open>Cache key derivation (\<open>_create_cache_key\<close>)\<close>

text \<open>
  \<open>round(x, n)\<close> on a float: the nearest multiple of \<open>10^-n\<close>, a tie going to the even
  one; a negative float that rounds to zero gives \<open>-0.0\<close>, and \<open>-0.0\<close> stays \<open>-0.0\<close>. On
  an \<open>int\<close> it returns the integer itself; a \<open>bool\<close> is an \<open>int\<close>.
\<close>

definition py_round :: "nat \<Rightarrow> rat \<Rightarrow> rat" where
  "py_round n x =
     (let s = x * 10 ^ n; f = \<lfloor>s\<rfloor>; d = s - of_int f
      in of_int (if d < 1 / 2 then f else if d > 1 / 2 then f + 1
                 else if even f then f else f + 1) / 10 ^ n)"

definition round_float :: "nat \<Rightarrow> rat \<Rightarrow> pyval" where
  "round_float n x = (if py_round n x = 0 \<and> x < 0 then PNegZero else PFloat (py_round n x))"

definition round_entry :: "pyval \<Rightarrow> pyval" where
  "round_entry v =
     (case v of
        PFloat x \<Rightarrow> round_float 2 x
      | PNegZero \<Rightarrow> PNegZero
      | PInt i \<Rightarrow> PInt i
      | PBool b \<Rightarrow> PInt (if b then 1 else 0)
      | _ \<Rightarrow> v)"

text \<open>The loop over \<open>weather_data.items()\<close> that fills \<open>cache_data\<close>.\<close>

fun round_items :: "pydict \<Rightarrow> pydict \<Rightarrow> pydict" where
  "round_items [] cache_data = cache_data"
| "round_items ((k, v) # items) cache_data =
     round_items items (AList.update k (round_entry v) cache_data)"

text \<open>\<open>round(location.get(k, 0), 4)\<close>: the default is the integer 0.\<close>

definition round_coordinate :: "location_dict \<Rightarrow> string \<Rightarrow> pyval" where
  "round_coordinate l k =
     (case map_of l k of
        None \<Rightarrow> PInt 0
      | Some (NInt i) \<Rightarrow> PInt i
      | Some (NFloat x) \<Rightarrow> round_float 4 x
      | Some NNegZero \<Rightarrow> PNegZero)"


definition cache_data_of :: "pydict \<Rightarrow> location_dict option \<Rightarrow> pydict" where
  "cache_data_of weather_data loc =
     (case loc of
        None \<Rightarrow> round_items weather_data []
      | Some l \<Rightarrow>
          if l = [] then round_items weather_data []
          else AList.update ''lon'' (round_coordinate l ''longitude'')
                 (AList.update ''lat'' (round_coordinate l ''latitude'')
                    (round_items weather_data [])))"

text \<open>
  What the code takes from the Python runtime and the configuration: \<open>json.dumps\<close> (of the
  items in the order given), the built-in \<open>hash\<close> of a string (a 64-bit value, salted per
  process) and the two prediction settings.
\<close>

record runtime =
  json_dumps :: "pydict \<Rightarrow> string"
  py_hash :: "string \<Rightarrow> 64 word"
  prediction_threshold :: rat
  prediction_cache_ttl :: int

text \<open>
  The key \<open>f"rainbow_prediction:{hash(cache_string)}"\<close>: the namespace tag with the hash
  value, kept as the value itself rather than its decimal digits.
\<close>

datatype cache_key = Rainbow_prediction "64 word"

definition cache_string :: "runtime \<Rightarrow> pydict \<Rightarrow> string" where
  "cache_string rt cache_data = json_dumps rt (sort_key fst cache_data)"

definition create_cache_key :: "runtime \<Rightarrow> pydict \<Rightarrow> location_dict option \<Rightarrow> cache_key" where
  "create_cache_key rt weather_data loc =
     Rainbow_prediction (py_hash rt (cache_string rt (cache_data_of weather_data loc)))"

section \<open>Prediction cache (\<open>_get_cached_prediction\<close>, \<open>_cache_prediction\<close>)\<close>

text \<open>
  The Redis client: the entries of the store, and whether its next read or write raises
  (a lost connection, a timeout). A stored entry is the serialised result; serialising and
  parsing it back are the identity here.
\<close>

record redis =
  store :: "cache_key \<Rightarrow> result option"
  get_raises :: bool
  setex_raises :: bool

definition redis_get :: "redis \<Rightarrow> cache_key \<Rightarrow> exn + result option" where
  "redis_get r k = (if get_raises r then Inl (RedisError ''get'') else Inr (store r k))"

definition redis_setex :: "redis \<Rightarrow> cache_key \<Rightarrow> int \<Rightarrow> result \<Rightarrow> exn + redis" where
  "redis_setex r k ttl res =
     (if setex_raises r then Inl (RedisError ''setex'')
      else Inr (r\<lparr>store := (store r)(k \<mapsto> res)\<rparr>))"

definition get_cached_prediction :: "redis \<Rightarrow> cache_key \<Rightarrow> result option" where
  "get_cached_prediction r k =
     (case redis_get r k of
        Inl e \<Rightarrow> None
      | Inr None \<Rightarrow> None
      | Inr (Some res) \<Rightarrow> Some (res\<lparr>cached := Some True\<rparr>))"

definition cache_prediction :: "int \<Rightarrow> redis \<Rightarrow> cache_key \<Rightarrow> result \<Rightarrow> redis" where
  "cache_prediction ttl r k res =
     (case redis_setex r k ttl res of Inl e \<Rightarrow> r | Inr r' \<Rightarrow> r')"

section \<open>Prediction orchestrator (\<open>RainbowPredictionService\<close>)\<close>

text \<open>The rows saved by \<open>db_manager.save_prediction_result\<close>, and whether saving raises.\<close>

record db_manager =
  saved :: "(rat \<times> pydict) list"
  save_raises :: bool

definition save_prediction_to_db :: "db_manager \<Rightarrow> result \<Rightarrow> pydict \<Rightarrow> db_manager" where
  "save_prediction_to_db d res weather_data =
     (case probability res of
        None \<Rightarrow> d
      | Some p \<Rightarrow> if save_raises d then d else d\<lparr>saved := saved d @ [(p, weather_data)]\<rparr>)"

record service =
  predictor :: rainbow_predictor
  redis_client :: "redis option"
  model_loaded :: bool
  db :: db_manager

text \<open>The number a Python value compares as; a string or \<open>None\<close> does not compare with one.\<close>

definition num_of :: "pyval \<Rightarrow> rat option" where
  "num_of v =
     (case v of
        PFloat x \<Rightarrow> Some x
      | PNegZero \<Rightarrow> Some 0
      | PInt i \<Rightarrow> Some (of_int i)
      | PBool b \<Rightarrow> Some (if b then 1 else 0)
      | _ \<Rightarrow> None)"

text \<open>One \<open>if key in weather_data\<close> block of \<open>_summarize_weather_conditions\<close>.\<close>

definition describe :: "pydict \<Rightarrow> string \<Rightarrow> (rat \<Rightarrow> string list) \<Rightarrow> exn + string list" where
  "describe weather_data k bucket =
     (case map_of weather_data k of
        None \<Rightarrow> Inr []
      | Some v \<Rightarrow>
          (case num_of v of
             None \<Rightarrow> Inl (TypeError ''not supported between instances'')
           | Some x \<Rightarrow> Inr (bucket x)))"

fun join_comma :: "string list \<Rightarrow> string" where
  "join_comma [] = []"
| "join_comma [c] = c"
| "join_comma (c # cs) = c @ '', '' @ join_comma cs"

definition summarize_weather_conditions :: "pydict \<Rightarrow> exn + string" where
  "summarize_weather_conditions weather_data =
     (case describe weather_data ''temperature''
             (\<lambda>temp. if temp < 10 then [''cold''] else if temp > 25 then [''warm'']
                      else [''mild'']) of
        Inl e \<Rightarrow> Inl e
      | Inr c1 \<Rightarrow>
     (case describe weather_data ''humidity''
             (\<lambda>humidity. if humidity > 80 then [''very humid'']
                          else if humidity > 60 then [''humid''] else [''dry'']) of
        Inl e \<Rightarrow> Inl e
      | Inr c2 \<Rightarrow>
     (case describe weather_data ''precipitation''
             (\<lambda>precip. if precip > 5 then [''heavy rain'']
                        else if precip > 0 then [''light rain''] else []) of
        Inl e \<Rightarrow> Inl e
      | Inr c3 \<Rightarrow>
     (case describe weather_data ''cloud_cover''
             (\<lambda>clouds. if clouds > 75 then [''overcast'']
                        else if clouds > 25 then [''partly cloudy''] else [''clear'']) of
        Inl e \<Rightarrow> Inl e
      | Inr c4 \<Rightarrow>
          Inr (if c1 @ c2 @ c3 @ c4 = [] then ''unknown conditions''
               else join_comma (c1 @ c2 @ c3 @ c4))))))"

definition generate_recommendation :: "rat \<Rightarrow> string" where
  "generate_recommendation p =
     (if p \<ge> 8 / 10 then
        ''Excellent chance of rainbow! Get your camera ready and head outside.''
      else if p \<ge> 6 / 10 then
        ''Good chance of rainbow. Keep an eye on the sky and be prepared.''
      else if p \<ge> 4 / 10 then
        ''Moderate chance of rainbow. Weather conditions are promising.''
      else if p \<ge> 2 / 10 then
        ''Low chance of rainbow, but still possible under right conditions.''
      else ''Very low chance of rainbow with current weather conditions.'')"

text \<open>\<open>weather_data.update(location)\<close>: each entry of the location is stored in the
  observation, in place.\<close>

definition dict_update :: "pydict \<Rightarrow> location_dict \<Rightarrow> pydict" where
  "dict_update weather_data l = fold (\<lambda>(k, x). AList.update k (to_pyval x)) l weather_data"

definition merge_location :: "pydict \<Rightarrow> location_dict option \<Rightarrow> pydict" where
  "merge_location weather_data loc =
     (case loc of
        None \<Rightarrow> weather_data
      | Some l \<Rightarrow> if l = [] then weather_data else dict_update weather_data l)"

text \<open>
  The part of \<open>predict_rainbow_probability\<close> after the cache lookup. Beside the outcome it
  returns the service (cache and database as the call leaves them) and the caller's
  observation as the call leaves it.
\<close>

definition fresh_prediction ::
  "runtime \<Rightarrow> service \<Rightarrow> pydict \<Rightarrow> location_dict option \<Rightarrow> cache_key option \<Rightarrow>
   (exn + result) \<times> service \<times> pydict" where
  "fresh_prediction rt s weather_data loc key =
     (let merged = merge_location weather_data loc in
      case predict (prediction_threshold rt) (predictor s) merged of
        Inl e \<Rightarrow> (Inl e, s, merged)
      | Inr res \<Rightarrow>
          (case summarize_weather_conditions merged of
             Inl e \<Rightarrow> (Inl e, s, merged)
           | Inr summary \<Rightarrow>
               (case probability res of
                  None \<Rightarrow> (Inl (KeyError ''probability''), s, merged)
                | Some p \<Rightarrow>
                    (let res' = res\<lparr>location := loc, weather_conditions := Some summary,
                                     recommendation := Some (generate_recommendation p),
                                     cached := Some False\<rparr>;
                         s1 = (case key of
                                 None \<Rightarrow> s
                               | Some k \<Rightarrow>
                                   (case redis_client s of
                                      None \<Rightarrow> s
                                    | Some r \<Rightarrow>
                                        s\<lparr>redis_client :=
                                             Some (cache_prediction (prediction_cache_ttl rt)
                                                     r k res')\<rparr>));
                         s2 = s1\<lparr>db := save_prediction_to_db (db s1) res' merged\<rparr>
                     in (Inr res', s2, merged)))))"

definition predict_rainbow_probability ::
  "runtime \<Rightarrow> service \<Rightarrow> pydict \<Rightarrow> location_dict option \<Rightarrow> bool \<Rightarrow>
   (exn + result) \<times> service \<times> pydict" where
  "predict_rainbow_probability rt s weather_data loc use_cache =
     (if \<not> model_loaded s then
        (Inl (ValueError ''No trained model available. Please train a model first.''), s,
         weather_data)
      else
        (let key = (if use_cache then Some (create_cache_key rt weather_data loc) else None)
         in case key of
              None \<Rightarrow> fresh_prediction rt s weather_data loc key
            | Some k \<Rightarrow>
                (case redis_client s of
                   None \<Rightarrow> fresh_prediction rt s weather_data loc key
                 | Some r \<Rightarrow>
                     (case get_cached_prediction r k of
                        Some cached_result \<Rightarrow> (Inr cached_result, s, weather_data)
                      | None \<Rightarrow> fresh_prediction rt s weather_data loc key))))"

section \<open>Batch prediction (\<open>predict_batch\<close>)\<close>

text \<open>\<open>str(e)\<close>: the message of an exception; a \<open>KeyError\<close> shows its key in quotes.\<close>

fun str_of :: "exn \<Rightarrow> string" where
  "str_of (ValueError m) = m"
| "str_of (TypeError m) = m"
| "str_of (KeyError m) = [CHR 0x27] @ m @ [CHR 0x27]"
| "str_of (InferenceError m) = m"
| "str_of (RedisError m) = m"

text \<open>The entry that stands for an item whose prediction raised.\<close>

definition error_result :: "exn \<Rightarrow> result" where
  "error_result e =
     empty_result\<lparr>probability := Some 0, prediction := Some 0, confidence := Some ''low'',
                  error := Some (str_of e)\<rparr>"

text \<open>
  The loop over \<open>enumerate(weather_data_list)\<close>: the index, the items still to predict, the
  service and the results so far. It returns the results, the service and the caller's
  observations as the calls leave them.
\<close>

fun batch_loop ::
  "runtime \<Rightarrow> location_dict option \<Rightarrow> nat \<Rightarrow> pydict list \<Rightarrow> service \<Rightarrow> result list \<Rightarrow>
   result list \<times> service \<times> pydict list" where
  "batch_loop rt loc i [] s results = (results, s, [])"
| "batch_loop rt loc i (weather_data # rest) s results =
     (case predict_rainbow_probability rt s weather_data loc False of
        (outcome, s', weather_data') \<Rightarrow>
          (case batch_loop rt loc (Suc i) rest s'
                  (results @
                     [case outcome of
                        Inr res \<Rightarrow> res\<lparr>batch_index := Some i\<rparr>
                      | Inl e \<Rightarrow> (error_result e)\<lparr>batch_index := Some i\<rparr>]) of
             (rs, s'', rest') \<Rightarrow> (rs, s'', weather_data' # rest')))"

definition predict_batch ::
  "runtime \<Rightarrow> service \<Rightarrow> pydict list \<Rightarrow> location_dict option \<Rightarrow>
   result list \<times> service \<times> pydict list" where
  "predict_batch rt s weather_data_list loc = batch_loop rt loc 0 weather_data_list s []"

section \<open>Time-series forecast (\<open>predict_time_series\<close>)\<close>

text \<open>
  What the simulation reads from outside: the hour of day of \<open>datetime.now()\<close> at its two
  reads, the draw of \<open>np.random.random()\<close> and the ISO text of the forecast time, each as a
  function of the forecast hour being simulated.
\<close>

record environment =
  now_hour_temperature :: "int \<Rightarrow> int"
  now_hour_humidity :: "int \<Rightarrow> int"
  random_draw :: "int \<Rightarrow> rat"
  isoformat :: "int \<Rightarrow> string"

definition temp_factor :: "int \<Rightarrow> rat" where
  "temp_factor hour =
     (if 0 \<le> hour \<and> hour \<le> 6 then 8 / 10 else if 12 \<le> hour \<and> hour \<le> 16 then 11 / 10 else 1)"

definition humid_factor :: "int \<Rightarrow> rat" where
  "humid_factor hour =
     (if 0 \<le> hour \<and> hour \<le> 6 then 12 / 10 else if 12 \<le> hour \<and> hour \<le> 16 then 9 / 10 else 1)"

text \<open>
  One \<open>if key in forecast\<close> block: the entry times a float, stored back after \<open>wrap\<close>.
  Multiplying a string or \<open>None\<close> by a float raises. The factors are positive, so \<open>-0.0\<close>
  stays \<open>-0.0\<close> (also under \<open>min(100, _)\<close>).
\<close>

definition scale_entry :: "pydict \<Rightarrow> string \<Rightarrow> (rat \<Rightarrow> pyval) \<Rightarrow> rat \<Rightarrow> exn + pydict" where
  "scale_entry forecast k wrap f =
     (case map_of forecast k of
        None \<Rightarrow> Inr forecast
      | Some PNegZero \<Rightarrow> Inr (AList.update k PNegZero forecast)
      | Some v \<Rightarrow>
          (case num_of v of
             None \<Rightarrow> Inl (TypeError ''unsupported operand type(s) for *'')
           | Some x \<Rightarrow> Inr (AList.update k (wrap (x * f)) forecast)))"

definition simulate_weather_forecast :: "environment \<Rightarrow> pydict \<Rightarrow> int \<Rightarrow> exn + pydict" where
  "simulate_weather_forecast env current_weather hours_ahead =
     (case scale_entry current_weather ''temperature'' PFloat
             (temp_factor ((now_hour_temperature env hours_ahead + hours_ahead) mod 24)) of
        Inl e \<Rightarrow> Inl e
      | Inr f1 \<Rightarrow>
          (case scale_entry f1 ''humidity'' (\<lambda>x. if x < 100 then PFloat x else PInt 100)
                  (humid_factor ((now_hour_humidity env hours_ahead + hours_ahead) mod 24)) of
             Inl e \<Rightarrow> Inl e
           | Inr f2 \<Rightarrow>
               scale_entry f2 ''precipitation'' PFloat (1 / 2 + random_draw env hours_ahead)))"

text \<open>
  The loop over \<open>range(forecast_hours)\<close>. The simulation runs outside the \<open>try\<close>: what it
  raises ends the whole operation. A prediction that raises becomes an error entry.
\<close>

fun forecast_loop ::
  "runtime \<Rightarrow> environment \<Rightarrow> pydict \<Rightarrow> location_dict option \<Rightarrow> int list \<Rightarrow> service \<Rightarrow>
   result list \<Rightarrow> (exn + result list) \<times> service" where
  "forecast_loop rt env current_weather loc [] s acc = (Inr acc, s)"
| "forecast_loop rt env current_weather loc (hour # hours) s acc =
     (case simulate_weather_forecast env current_weather hour of
        Inl e \<Rightarrow> (Inl e, s)
      | Inr forecast \<Rightarrow>
          (case predict_rainbow_probability rt s
                  (AList.update ''timestamp'' (PStr (isoformat env hour)) forecast) loc False of
             (outcome, s', forecast') \<Rightarrow>
               forecast_loop rt env current_weather loc hours s'
                 (acc @
                    [case outcome of
                       Inr res \<Rightarrow> res\<lparr>forecast_hour := Some hour\<rparr>
                     | Inl e \<Rightarrow> (error_result e)\<lparr>forecast_hour := Some hour\<rparr>])))"

text \<open>\<open>max\<close> of a list raises on an empty one.\<close>

definition empty_max_message :: string where
  "empty_max_message = ''max() arg is an empty sequence''"

fun py_max :: "rat list \<Rightarrow> exn + rat" where
  "py_max [] = Inl (ValueError empty_max_message)"
| "py_max (x # xs) = Inr (fold max xs x)"

text \<open>\<open>np.argmax\<close>: the first position of the maximum.\<close>

fun first_index :: "rat \<Rightarrow> rat list \<Rightarrow> nat" where
  "first_index m [] = 0"
| "first_index m (x # xs) = (if x = m then 0 else Suc (first_index m xs))"

record summary =
  summary_max_probability :: rat
  summary_avg_probability :: npfloat
  peak_hour :: int
  favorable_hours :: nat
  total_hours :: nat

definition summarize_forecast :: "result list \<Rightarrow> exn + summary" where
  "summarize_forecast ps =
     (case py_max (map get_probability ps) of
        Inl e \<Rightarrow> Inl e
      | Inr m \<Rightarrow>
          Inr \<lparr>summary_max_probability = m,
               summary_avg_probability = np_mean (map get_probability ps),
               peak_hour = get_forecast_hour (ps ! first_index m (map get_probability ps)),
               favorable_hours = length (filter (\<lambda>p. p \<ge> 4 / 10) (map get_probability ps)),
               total_hours = length ps\<rparr>)"

record forecast =
  forecast_predictions :: "result list"
  forecast_peak_windows :: "window list"
  forecast_max_probability :: rat
  forecast_summary :: summary

definition predict_time_series ::
  "runtime \<Rightarrow> environment \<Rightarrow> service \<Rightarrow> pydict \<Rightarrow> int \<Rightarrow> location_dict option \<Rightarrow>
   (exn + forecast) \<times> service" where
  "predict_time_series rt env s current_weather forecast_hours loc =
     (case forecast_loop rt env current_weather loc (map int [0..<nat forecast_hours]) s [] of
        (Inl e, s') \<Rightarrow> (Inl e, s')
      | (Inr ps, s') \<Rightarrow>
          (case py_max (map get_probability ps) of
             Inl e \<Rightarrow> (Inl e, s')
           | Inr m \<Rightarrow>
               (case summarize_forecast ps of
                  Inl e \<Rightarrow> (Inl e, s')
                | Inr sm \<Rightarrow>
                    (Inr \<lparr>forecast_predictions = ps,
                          forecast_peak_windows = find_peak_probability_windows ps,
                          forecast_max_probability = m, forecast_summary = sm\<rparr>, s'))))"

section \<open>Auxiliary notions for the statements\<close>




text \<open>The call is answered from the cache.\<close>

definition cache_hit :: "runtime \<Rightarrow> service \<Rightarrow> pydict \<Rightarrow> location_dict option \<Rightarrow> bool \<Rightarrow> bool" where
  "cache_hit rt s weather_data loc use_cache =
     (use_cache \<and>
      (case redis_client s of
         None \<Rightarrow> False
       | Some r \<Rightarrow> get_cached_prediction r (create_cache_key rt weather_data loc) \<noteq> None))"

text \<open>
  The entry of a batch for one item: the outcome of predicting the item alone, without
  the cache, annotated with its index.
\<close>

definition item_result :: "runtime \<Rightarrow> service \<Rightarrow> location_dict option \<Rightarrow> nat \<Rightarrow> pydict \<Rightarrow> result" where
  "item_result rt s loc i weather_data =
     (case fst (predict_rainbow_probability rt s weather_data loc False) of
        Inr res \<Rightarrow> res\<lparr>batch_index := Some i\<rparr>
      | Inl e \<Rightarrow> (error_result e)\<lparr>batch_index := Some i\<rparr>)"

text \<open>Two services hold the same model state.\<close>

definition same_model :: "service \<Rightarrow> service \<Rightarrow> bool" where
  "same_model s s' = (model_loaded s = model_loaded s' \<and> predictor s = predictor s')"

section \<open>Sample inputs\<close>

text \<open>
  A predictor with one trained model over three features, whose classifier returns the
  given probability for a vector of the trained length; and an observation that lacks
  the humidity.
\<close>

definition demo_predictor :: "rat \<Rightarrow> rainbow_predictor" where
  "demo_predictor p =
     \<lparr>best_model_name = Some ''random_forest'',
      models = [(''random_forest'', \<lambda>X. if length X = 3 then Inr p else Inl (InferenceError ''shape''))],
      feature_names = [''temperature'', ''humidity'', ''pressure''],
      transform_single_prediction =
        (\<lambda>w. Inr (map (\<lambda>(k, v). (k, case v of PFloat x \<Rightarrow> x | PInt i \<Rightarrow> of_int i | _ \<Rightarrow> 0)) w)),
      scaler_transform = Inr\<rparr>"

definition demo_weather :: pydict where
  "demo_weather = [(''temperature'', PFloat 22), (''pressure'', PInt 1013)]"

text \<open>
  A runtime to evaluate on: a serialisation that writes every entry (a float as the
  fraction it denotes) and a polynomial string hash. Then a service with the sample
  predictor, loaded, without a cache client.
\<close>

fun decimal :: "nat \<Rightarrow> string" where
  "decimal n =
     (if n < 10 then [char_of (48 + n)] else decimal (n div 10) @ [char_of (48 + n mod 10)])"

definition show_int :: "int \<Rightarrow> string" where
  "show_int i = (if i < 0 then ''-'' @ decimal (nat (- i)) else decimal (nat i))"

definition show_entry :: "pyval \<Rightarrow> string" where
  "show_entry v =
     (case v of
        PNone \<Rightarrow> ''null''
      | PBool b \<Rightarrow> (if b then ''true'' else ''false'')
      | PInt i \<Rightarrow> show_int i
      | PFloat x \<Rightarrow> (case quotient_of x of (n, d) \<Rightarrow> show_int n @ ''/'' @ show_int d)
      | PNegZero \<Rightarrow> ''-0.0''
      | PStr t \<Rightarrow> [CHR 0x22] @ t @ [CHR 0x22])"

definition sample_dumps :: "pydict \<Rightarrow> string" where
  "sample_dumps d = concat (map (\<lambda>(k, v). k @ '': '' @ show_entry v @ '', '') d)"

definition sample_hash :: "string \<Rightarrow> 64 word" where
  "sample_hash t = fold (\<lambda>c h. h * 31 + of_char c) t 0"

definition demo_runtime :: runtime where
  "demo_runtime =
     \<lparr>json_dumps = sample_dumps, py_hash = sample_hash,
      prediction_threshold = 1 / 2, prediction_cache_ttl = 300\<rparr>"

definition demo_service :: service where
  "demo_service =
     \<lparr>predictor = demo_predictor (1 / 2), redis_client = None, model_loaded = True,
      db = \<lparr>saved = [], save_raises = False\<rparr>\<rparr>"


text \<open>
  An observation whose prediction raises (its temperature is not a number), and an
  environment for the simulation.
\<close>

definition poisoned_weather :: pydict where
  "poisoned_weather = [(''temperature'', PStr ''n/a'')]"

definition demo_environment :: environment where
  "demo_environment =
     \<lparr>now_hour_temperature = (\<lambda>h. 13), now_hour_humidity = (\<lambda>h. 13),
      random_draw = (\<lambda>h. 1 / 4), isoformat = (\<lambda>h. ''2024-06-01T13:00:00'')\<rparr>"

section \<open>Properties of the forecast window analyzer\<close>

lemma get_hourly [simp]:
  "get_probability (hourly h p) = p" "get_forecast_hour (hourly h p) = h"
  by (simp_all add: hourly_def get_probability_def get_forecast_hour_def empty_result_def)

text \<open>
  C1. On the literal input (0,0.3),(1,0.6),(2,0.8),(3,0.4),(4,0.7),(5,0.2) the analyzer
  (threshold 0.5) returns exactly two windows: hours 1 to 2 with maximum 0.8, and hour 4
  to 4 with maximum 0.7. Their averages are 0.7 and 0.7, their durations 2 and 1.
\<close>

theorem C1_literal_windows:
  "find_peak_probability_windows
     [hourly 0 (3/10), hourly 1 (6/10), hourly 2 (8/10), hourly 3 (4/10), hourly 4 (7/10),
      hourly 5 (2/10)]
   = [\<lparr>start_hour = 1, end_hour = 2, max_probability = 8/10,
        avg_probability = Finite (7/10), duration = 2\<rparr>,
      \<lparr>start_hour = 4, end_hour = 4, max_probability = 7/10,
        avg_probability = Finite (7/10), duration = 1\<rparr>]"
  by (simp add: find_peak_probability_windows_def peak_threshold_def close_window_def
      window_predictions_def np_mean_def)

lemma close_window_avg_ok: "avg_ok ps (close_window ps w)"
  by (simp add: avg_ok_def close_window_def window_predictions_def)

lemma close_window_duration_ok: "duration_ok (close_window ps w) = duration_ok w"
  by (simp add: duration_ok_def close_window_def)

lemma scan_windows_avg:
  "list_all (avg_ok ps) ws \<Longrightarrow> list_all (avg_ok ps) (scan_windows ps rest ws cur)"
proof (induction rest arbitrary: ws cur)
  case Nil
  then show ?case by (cases cur) (simp_all add: close_window_avg_ok)
next
  case (Cons p rest)
  then show ?case by (cases cur) (simp_all add: close_window_avg_ok)
qed

lemma consecutive_tail: "consecutive_hours (p # rest) \<Longrightarrow> consecutive_hours rest"
  by (cases rest) simp_all

lemma scan_windows_duration:
  "consecutive_hours rest \<Longrightarrow> next_hour_ok cur rest \<Longrightarrow> list_all duration_ok ws \<Longrightarrow>
   list_all duration_ok (scan_windows ps rest ws cur)"
proof (induction rest arbitrary: ws cur)
  case Nil
  then show ?case by (cases cur) (simp_all add: close_window_duration_ok)
next
  case (Cons p rest)
  have tl: "consecutive_hours rest" using Cons.prems(1) by (rule consecutive_tail)
  show ?case
  proof (cases "get_probability p \<ge> peak_threshold")
    case above: True
    show ?thesis
    proof (cases cur)
      case None
      let ?w = "\<lparr>start_hour = get_forecast_hour p, end_hour = get_forecast_hour p,
                      max_probability = get_probability p,
                      avg_probability = Finite (get_probability p), duration = 1\<rparr>"
      have "next_hour_ok (Some ?w) rest"
        using Cons.prems(1) by (cases rest) (simp_all add: duration_ok_def)
      from Cons.IH [OF tl this Cons.prems(3)] show ?thesis using above None by simp
    next
      case (Some w)
      let ?w = "w\<lparr>end_hour := get_forecast_hour p,
                        max_probability := max (max_probability w) (get_probability p),
                        duration := duration w + 1\<rparr>"
      have "next_hour_ok (Some ?w) rest"
        using Cons.prems(1,2) Some by (cases rest) (simp_all add: duration_ok_def)
      from Cons.IH [OF tl this Cons.prems(3)] show ?thesis using above Some by simp
    qed
  next
    case below: False
    show ?thesis
    proof (cases cur)
      case None
      have "next_hour_ok None rest" by simp
      from Cons.IH [OF tl this Cons.prems(3)] show ?thesis using below None by simp
    next
      case (Some w)
      have "list_all duration_ok (ws @ [close_window ps w])"
        using Cons.prems(2,3) Some by (simp add: close_window_duration_ok)
      from Cons.IH [OF tl _ this, of None] show ?thesis using below Some by simp
    qed
  qed
qed

lemma close_open_window: "close_window ps (open_window run) = run_window ps run"
  by (simp add: close_window_def open_window_def run_window_def window_predictions_def)

lemma open_window_single:
  "\<lparr>start_hour = get_forecast_hour p, end_hour = get_forecast_hour p,
      max_probability = get_probability p,
      avg_probability = Finite (get_probability p), duration = 1\<rparr> = open_window [p]"
  by (simp add: open_window_def)

lemma open_window_extend:
  "run \<noteq> [] \<Longrightarrow>
   (open_window run)\<lparr>end_hour := get_forecast_hour p,
       max_probability := max (max_probability (open_window run)) (get_probability p),
       duration := duration (open_window run) + 1\<rparr> = open_window (run @ [p])"
proof -
  assume r: "run \<noteq> []"
  then have "Max (set (map get_probability (run @ [p]))) =
             max (Max (set (map get_probability run))) (get_probability p)"
    by (simp add: max.commute)
  with r show ?thesis by (simp add: open_window_def)
qed

lemma scan_windows_runs:
  "scan_windows ps rest ws None = ws @ map (run_window ps) (peak_runs rest)"
  "run \<noteq> [] \<Longrightarrow>
   scan_windows ps rest ws (Some (open_window run)) =
     ws @ run_window ps (run @ takeWhile at_peak rest) #
       map (run_window ps) (peak_runs (dropWhile at_peak rest))"
proof (induction rest arbitrary: ws run)
  case Nil
  { case 1 show ?case by simp }
  { case 2 then show ?case by (simp add: close_open_window) }
next
  case (Cons p rest)
  { case 1
    show ?case
    proof (cases "at_peak p")
      case True
      then show ?thesis
        using Cons.IH(2) [of "[p]" ws]
        by (simp add: at_peak_def [symmetric] open_window_single)
    next
      case False
      then show ?thesis
        using Cons.IH(1) [of ws] by (simp add: at_peak_def [symmetric])
    qed }
  { case 2
    show ?case
    proof (cases "at_peak p")
      case True
      then show ?thesis
        using Cons.IH(2) [of "run @ [p]" ws] 2
        by (simp add: at_peak_def [symmetric] open_window_extend)
    next
      case False
      then show ?thesis
        using Cons.IH(1) [of "ws @ [run_window ps run]"]
        by (simp add: at_peak_def [symmetric] close_open_window)
    qed }
qed

lemma find_peak_runs:
  "find_peak_probability_windows ps = map (run_window ps) (peak_runs ps)"
  by (simp add: find_peak_probability_windows_def scan_windows_runs(1))

lemma filter_take_drop:
  "filter P xs = takeWhile P xs @ filter P (dropWhile P xs)"
proof -
  have "filter P (takeWhile P xs) = takeWhile P xs"
    by (simp add: filter_id_conv) (meson set_takeWhileD)
  then have "filter P (takeWhile P xs @ dropWhile P xs) =
             takeWhile P xs @ filter P (dropWhile P xs)"
    by (simp only: filter_append)
  then show ?thesis by simp
qed

lemma concat_peak_runs: "concat (peak_runs ps) = filter at_peak ps"
proof (induction ps rule: peak_runs.induct)
  case 1
  then show ?case by simp
next
  case (2 p ps)
  show ?case
  proof (cases "at_peak p")
    case True
    with 2 show ?thesis using filter_take_drop [of at_peak ps] by simp
  next
    case False
    with 2 show ?thesis by simp
  qed
qed

lemma peak_runs_nonempty: "run \<in> set (peak_runs ps) \<Longrightarrow> run \<noteq> [] \<and> list_all at_peak run"
proof (induction ps rule: peak_runs.induct)
  case 1
  then show ?case by simp
next
  case (2 p ps)
  show ?case
  proof (cases "at_peak p")
    case True
    with 2 show ?thesis
      by (auto simp: list_all_iff dest: set_takeWhileD)
  next
    case False
    with 2 show ?thesis by simp
  qed
qed

text \<open>
  C2. For every input, the windows the analyzer returns are the windows of the runs of the
  input, in order, and every prediction at or above the threshold lies in exactly one
  run. So for every window: its average is the mean of the probabilities of exactly the
  predictions of the input whose hour lies between the window's start and end
  (inclusive); its duration is the number of predictions of its run, those that opened
  and extended it; and this number is end - start + 1 when the hours of the input are
  consecutive integers, as the time-series operation produces them.
\<close>

theorem C2_window_average_and_duration:
  "find_peak_probability_windows predictions =
     map (run_window predictions) (peak_runs predictions)
   \<and> concat (peak_runs predictions) = filter at_peak predictions
   \<and> (w \<in> set (find_peak_probability_windows predictions) \<longrightarrow>
        avg_probability w =
          np_mean (map get_probability
            (filter (\<lambda>p. start_hour w \<le> get_forecast_hour p \<and> get_forecast_hour p \<le> end_hour w)
               predictions))
        \<and> (\<exists>run \<in> set (peak_runs predictions).
              run \<noteq> [] \<and> list_all at_peak run \<and> w = run_window predictions run \<and>
              duration w = int (length run))
        \<and> (consecutive_hours predictions \<longrightarrow> duration w = end_hour w - start_hour w + 1))"
proof (intro conjI impI)
  show e: "find_peak_probability_windows predictions =
     map (run_window predictions) (peak_runs predictions)"
    by (rule find_peak_runs)
  show "concat (peak_runs predictions) = filter at_peak predictions"
    by (rule concat_peak_runs)
  assume w: "w \<in> set (find_peak_probability_windows predictions)"
  have "list_all (avg_ok predictions) (find_peak_probability_windows predictions)"
    unfolding find_peak_probability_windows_def by (rule scan_windows_avg) simp
  with w have "avg_ok predictions w" by (simp add: list_all_iff)
  then show "avg_probability w =
          np_mean (map get_probability
            (filter (\<lambda>p. start_hour w \<le> get_forecast_hour p \<and> get_forecast_hour p \<le> end_hour w)
               predictions))"
    by (simp add: avg_ok_def window_predictions_def)
  from w e obtain run where r: "run \<in> set (peak_runs predictions)"
    and wr: "w = run_window predictions run"
    by auto
  from r have "run \<noteq> [] \<and> list_all at_peak run" by (rule peak_runs_nonempty)
  moreover from wr have "duration w = int (length run)" by (simp add: run_window_def)
  ultimately show "\<exists>run \<in> set (peak_runs predictions).
              run \<noteq> [] \<and> list_all at_peak run \<and> w = run_window predictions run \<and>
              duration w = int (length run)"
    using r wr by blast
  assume c: "consecutive_hours predictions"
  have "list_all duration_ok (find_peak_probability_windows predictions)"
    unfolding find_peak_probability_windows_def
    by (rule scan_windows_duration [OF c]) simp_all
  with w show "duration w = end_hour w - start_hour w + 1"
    by (simp add: list_all_iff duration_ok_def)
qed

text \<open>
  With a gap in the hours (1, then 3) the one window spans hours 1 to 3 and its duration
  is 2, not 3.
\<close>

theorem C2_gap_counterexample:
  "map (\<lambda>w. (start_hour w, end_hour w, duration w, end_hour w - start_hour w + 1))
     (find_peak_probability_windows [hourly 1 (6/10), hourly 3 (8/10)])
   = [(1, 3, 2, 3)]"
  by (simp add: find_peak_probability_windows_def peak_threshold_def close_window_def
      window_predictions_def np_mean_def)

theorem C2_window_average_and_duration_witness:
  "\<lparr>start_hour = 1, end_hour = 2, max_probability = 8/10,
      avg_probability = Finite (7/10), duration = 2\<rparr>
     \<in> set (find_peak_probability_windows
         [hourly 0 (3/10), hourly 1 (6/10), hourly 2 (8/10), hourly 3 (4/10), hourly 4 (7/10),
          hourly 5 (2/10)])
   \<and> consecutive_hours
         [hourly 0 (3/10), hourly 1 (6/10), hourly 2 (8/10), hourly 3 (4/10), hourly 4 (7/10),
          hourly 5 (2/10)]
   \<and> peak_runs
         [hourly 0 (3/10), hourly 1 (6/10), hourly 2 (8/10), hourly 3 (4/10), hourly 4 (7/10),
          hourly 5 (2/10)] = [[hourly 1 (6/10), hourly 2 (8/10)], [hourly 4 (7/10)]]
   \<and> map (run_window [hourly 1 (6/10), hourly 9 (8/10)]) (peak_runs [hourly 1 (6/10), hourly 9 (8/10)])
       = [\<lparr>start_hour = 1, end_hour = 9, max_probability = 8/10,
            avg_probability = Finite (7/10), duration = 2\<rparr>]
   \<and> find_peak_probability_windows [hourly 1 (6/10), hourly 9 (8/10)]
       = [\<lparr>start_hour = 1, end_hour = 9, max_probability = 8/10,
            avg_probability = Finite (7/10), duration = 2\<rparr>]
   \<and> Finite (7/10) = np_mean [6/10, 8/10] \<and> (2::int) = 2 - 1 + 1"
proof -
  let ?ps = "[hourly 0 (3/10), hourly 1 (6/10), hourly 2 (8/10), hourly 3 (4/10), hourly 4 (7/10),
          hourly 5 (2/10)]"
  let ?w = "\<lparr>start_hour = 1, end_hour = 2, max_probability = 8/10,
      avg_probability = Finite (7/10), duration = 2\<rparr>"
  have m: "?w \<in> set (find_peak_probability_windows ?ps)"
    by (simp add: find_peak_probability_windows_def peak_threshold_def close_window_def
        window_predictions_def np_mean_def)
  have c: "consecutive_hours ?ps" by simp
  have p: "peak_runs ?ps = [[hourly 1 (6/10), hourly 2 (8/10)], [hourly 4 (7/10)]]"
    by (simp add: at_peak_def peak_threshold_def)
  have g: "map (run_window [hourly 1 (6/10), hourly 9 (8/10)])
             (peak_runs [hourly 1 (6/10), hourly 9 (8/10)])
       = [\<lparr>start_hour = 1, end_hour = 9, max_probability = 8/10,
            avg_probability = Finite (7/10), duration = 2\<rparr>]"
    by (simp add: at_peak_def peak_threshold_def run_window_def np_mean_def)
  from C2_window_average_and_duration [of ?ps ?w] m c
  have a: "avg_probability ?w =
          np_mean (map get_probability
            (filter (\<lambda>p. start_hour ?w \<le> get_forecast_hour p \<and> get_forecast_hour p \<le> end_hour ?w)
               ?ps))"
    and d: "duration ?w = end_hour ?w - start_hour ?w + 1"
    by blast+
  from C2_window_average_and_duration [of "[hourly 1 (6/10), hourly 9 (8/10)]" ?w] g
  have f: "find_peak_probability_windows [hourly 1 (6/10), hourly 9 (8/10)]
       = [\<lparr>start_hour = 1, end_hour = 9, max_probability = 8/10,
            avg_probability = Finite (7/10), duration = 2\<rparr>]"
    by simp
  from m c p g f a d show ?thesis by (simp add: np_mean_def)
qed

section \<open>Properties of the inference engine\<close>

lemma build_feature_vector_map:
  "build_feature_vector features ns acc = acc @ map (features_get features) ns"
  by (induction ns arbitrary: acc) simp_all

lemma predict_InrD:
  assumes "predict threshold pr weather_data = Inr r"
  shows "\<exists>name model p X. best_model_name pr = Some name \<and>
           map_of (models pr) name = Some model \<and> model X = Inr p \<and>
           r = empty_result\<lparr>probability := Some p,
                 prediction := Some (if p \<ge> threshold then 1 else 0),
                 confidence := Some (confidence_of p), model_used := Some name\<rparr>"
proof -
  from assms obtain name where n: "best_model_name pr = Some name" "name \<noteq> []"
    unfolding predict_def by (auto split: option.splits if_splits)
  from assms n obtain model where m: "map_of (models pr) name = Some model"
    unfolding predict_def by (auto split: option.splits)
  from assms n m obtain features where
    f: "transform_single_prediction pr weather_data = Inr features"
    unfolding predict_def by (auto split: sum.splits)
  define X0 where "X0 = (if name \<in> set [''logistic_regression'', ''neural_network'']
                             then scaler_transform pr
                                    (build_feature_vector features (feature_names pr) [])
                             else Inr (build_feature_vector features (feature_names pr) []))"
  have eq: "predict threshold pr weather_data =
     (case X0 of Inl e \<Rightarrow> Inl e
      | Inr X \<Rightarrow> (case model X of Inl e \<Rightarrow> Inl e
          | Inr p \<Rightarrow> Inr (empty_result\<lparr>probability := Some p,
                 prediction := Some (if p \<ge> threshold then 1 else 0),
                 confidence := Some (confidence_of p), model_used := Some name\<rparr>)))"
    unfolding predict_def X0_def using n m f by simp
  from assms obtain X where x: "X0 = Inr X"
    unfolding eq by (cases X0) simp_all
  from assms obtain p where p: "model X = Inr p"
    unfolding eq x by (cases "model X") simp_all
  from assms have "r = empty_result\<lparr>probability := Some p,
                 prediction := Some (if p \<ge> threshold then 1 else 0),
                 confidence := Some (confidence_of p), model_used := Some name\<rparr>"
    unfolding eq x using p by simp
  with n m p show ?thesis by blast
qed

text \<open>
  C7. The feature vector built from a transformed record has one entry per trained feature
  name, in the order of the names: the record's entry under that name, and 0 where the
  record has none. Building it raises nothing and drops no column, so its length is the
  number of feature names.
\<close>

theorem C7_feature_vector_zero_fill:
  "length (build_feature_vector features names []) = length names \<and>
   (\<forall>i < length names.
      build_feature_vector features names [] ! i =
        (case map_of features (names ! i) of None \<Rightarrow> 0 | Some v \<Rightarrow> v))"
  by (simp add: build_feature_vector_map features_get_def)

theorem C7_feature_vector_zero_fill_witness:
  "build_feature_vector [(''temperature'', 22), (''pressure'', 1013)]
     [''temperature'', ''humidity'', ''pressure''] [] = [22, 0, 1013]
   \<and> length (build_feature_vector [(''temperature'', 22), (''pressure'', 1013)]
        [''temperature'', ''humidity'', ''pressure''] []) = 3
   \<and> build_feature_vector [(''temperature'', 22), (''pressure'', 1013)]
        [''temperature'', ''humidity'', ''pressure''] [] ! 1 = 0"
  using C7_feature_vector_zero_fill
    [of "[(''temperature'', 22), (''pressure'', 1013)]"
        "[''temperature'', ''humidity'', ''pressure'']"]
  by (simp add: features_get_def)

text \<open>
  C8. A successful prediction carries the classifier's probability and a class that is 0
  or 1; the class is 1 exactly when the probability is at least the configured threshold
  (so a tie is positive). The probability is what the classifier returned, unchanged: it
  lies in [0,1] as the classifier's own outputs do.
\<close>

theorem C8_probability_and_class:
  assumes "predict threshold pr weather_data = Inr r"
  shows "\<exists>p c. probability r = Some p \<and> prediction r = Some c \<and> (c = 0 \<or> c = 1) \<and>
           (c = 1 \<longleftrightarrow> p \<ge> threshold) \<and>
           ((\<forall>m \<in> snd ` set (models pr). returns_probabilities m) \<longrightarrow> 0 \<le> p \<and> p \<le> 1)"
proof -
  from predict_InrD [OF assms] obtain name model p X where
    m: "map_of (models pr) name = Some model" and
    r: "r = empty_result\<lparr>probability := Some p,
           prediction := Some (if p \<ge> threshold then 1 else 0),
           confidence := Some (confidence_of p), model_used := Some name\<rparr>" and
    x: "model X = Inr p"
    by blast
  from m have "model \<in> snd ` set (models pr)"
    by (metis map_of_SomeD image_eqI snd_conv)
  with x have "(\<forall>m \<in> snd ` set (models pr). returns_probabilities m) \<longrightarrow> 0 \<le> p \<and> p \<le> 1"
    unfolding returns_probabilities_def by blast
  with r show ?thesis by simp
qed

theorem C8_probability_and_class_witness:
  "predict (1/2) (demo_predictor (1/2)) demo_weather =
     Inr (empty_result\<lparr>probability := Some (1/2), prediction := Some 1,
            confidence := Some ''medium'', model_used := Some ''random_forest''\<rparr>)
   \<and> returns_probabilities (the (map_of (models (demo_predictor (1/2))) ''random_forest''))"
proof -
  have e: "predict (1/2) (demo_predictor (1/2)) demo_weather =
     Inr (empty_result\<lparr>probability := Some (1/2), prediction := Some 1,
            confidence := Some ''medium'', model_used := Some ''random_forest''\<rparr>)"
    by (simp add: predict_def demo_predictor_def demo_weather_def confidence_of_def
        features_get_def)
  have c: "returns_probabilities (the (map_of (models (demo_predictor (1/2))) ''random_forest''))"
    by (simp add: demo_predictor_def returns_probabilities_def)
  from C8_probability_and_class [OF e] e c show ?thesis by simp
qed

text \<open>
  C9. In a successful prediction the confidence is "high" exactly when the probability is
  above 0.7 or below 0.3, and "medium" otherwise; at exactly 0.3 and exactly 0.7 it is
  "medium".
\<close>

theorem C9_confidence:
  assumes "predict threshold pr weather_data = Inr r"
  shows "\<exists>p. probability r = Some p \<and>
           confidence r = Some (if p > 7/10 \<or> p < 3/10 then ''high'' else ''medium'') \<and>
           (p = 3/10 \<or> p = 7/10 \<longrightarrow> confidence r = Some ''medium'')"
proof -
  from predict_InrD [OF assms] obtain name p where
    r: "r = empty_result\<lparr>probability := Some p,
           prediction := Some (if p \<ge> threshold then 1 else 0),
           confidence := Some (confidence_of p), model_used := Some name\<rparr>"
    by blast
  then show ?thesis by (auto simp: confidence_of_def)
qed

theorem C9_confidence_witness:
  "predict (1/2) (demo_predictor (7/10)) demo_weather =
     Inr (empty_result\<lparr>probability := Some (7/10), prediction := Some 1,
            confidence := Some ''medium'', model_used := Some ''random_forest''\<rparr>)
   \<and> confidence (empty_result\<lparr>probability := Some (7/10), prediction := Some 1,
            confidence := Some ''medium'', model_used := Some ''random_forest''\<rparr>) = Some ''medium''"
proof -
  have e: "predict (1/2) (demo_predictor (7/10)) demo_weather =
     Inr (empty_result\<lparr>probability := Some (7/10), prediction := Some 1,
            confidence := Some ''medium'', model_used := Some ''random_forest''\<rparr>)"
    by (simp add: predict_def demo_predictor_def demo_weather_def confidence_of_def
        features_get_def)
  from C9_confidence [OF e] e show ?thesis by simp
qed

section \<open>Properties of the cache key derivation\<close>














lemma cache_data_of_int:
  "cache_data_of [(''temperature'', PInt n)] None = [(''temperature'', PInt n)]"
  by (simp add: cache_data_of_def round_entry_def)

text \<open>
  The hash has 64 bits and there are infinitely many rounded observations: whatever the
  runtime, two observations with different rounded data share a key.
\<close>

lemma hash_collision_exists:
  "\<exists>n m. n \<noteq> m \<and>
     cache_data_of [(''temperature'', PInt n)] None \<noteq>
       cache_data_of [(''temperature'', PInt m)] None \<and>
     create_cache_key rt [(''temperature'', PInt n)] None =
       create_cache_key rt [(''temperature'', PInt m)] None"
proof -
  define f :: "int \<Rightarrow> 64 word" where
    "f n = py_hash rt (cache_string rt [(''temperature'', PInt n)])" for n
  have "\<not> inj f"
  proof
    assume "inj f"
    moreover have "finite (range f)" by simp
    ultimately have "finite (UNIV :: int set)" by (rule finite_imageD [rotated])
    then show False by (simp add: infinite_UNIV_int)
  qed
  then obtain n m where "n \<noteq> m" "f n = f m"
    by (auto simp: inj_def)
  then show ?thesis
    unfolding create_cache_key_def cache_data_of_int f_def by auto
qed

section \<open>Properties of the single prediction\<close>


lemma fresh_prediction_outcome:
  "predictor s = predictor s' \<Longrightarrow>
   fst (fresh_prediction rt s weather_data loc key) =
     fst (fresh_prediction rt s' weather_data loc key') \<and>
   snd (snd (fresh_prediction rt s weather_data loc key)) =
     snd (snd (fresh_prediction rt s' weather_data loc key'))"
  by (simp add: fresh_prediction_def Let_def split: sum.splits option.splits)



lemma fresh_prediction_failed_write:
  "redis_client s = Some r \<Longrightarrow> setex_raises r \<Longrightarrow>
   redis_client (fst (snd (fresh_prediction rt s weather_data loc key))) = Some r"
  by (simp add: fresh_prediction_def Let_def cache_prediction_def redis_setex_def
      split: sum.splits option.splits)

lemma predict_rainbow_probability_cases:
  "predict_rainbow_probability rt s weather_data loc use_cache =
     (if \<not> model_loaded s then
        (Inl (ValueError ''No trained model available. Please train a model first.''), s,
         weather_data)
      else if cache_hit rt s weather_data loc use_cache then
        (Inr (the (get_cached_prediction (the (redis_client s))
                (create_cache_key rt weather_data loc))), s, weather_data)
      else fresh_prediction rt s weather_data loc
             (if use_cache then Some (create_cache_key rt weather_data loc) else None))"
  by (auto simp: predict_rainbow_probability_def cache_hit_def Let_def split: option.splits)


text \<open>
  C6. A cache read that raises gives the same outcome as a read that finds no entry: the
  fresh prediction runs and its result is returned. A cache write that raises gives the
  same outcome as one that succeeds, and leaves the cache client as it was.
\<close>

theorem C6_cache_errors_recovered:
  "fst (predict_rainbow_probability rt (s\<lparr>redis_client := Some (r\<lparr>get_raises := True\<rparr>)\<rparr>)
          weather_data loc use_cache) =
   fst (predict_rainbow_probability rt
          (s\<lparr>redis_client := Some (r\<lparr>get_raises := False,
                store := (store r)(create_cache_key rt weather_data loc := None)\<rparr>)\<rparr>)
          weather_data loc use_cache)
   \<and> fst (predict_rainbow_probability rt (s\<lparr>redis_client := Some (r\<lparr>setex_raises := True\<rparr>)\<rparr>)
          weather_data loc use_cache) =
     fst (predict_rainbow_probability rt (s\<lparr>redis_client := Some (r\<lparr>setex_raises := False\<rparr>)\<rparr>)
          weather_data loc use_cache)
   \<and> redis_client (fst (snd (predict_rainbow_probability rt
          (s\<lparr>redis_client := Some (r\<lparr>setex_raises := True\<rparr>)\<rparr>) weather_data loc use_cache))) =
     Some (r\<lparr>setex_raises := True\<rparr>)"
proof (intro conjI)
  let ?k = "create_cache_key rt weather_data loc"
  let ?key = "if use_cache then Some ?k else None"
  let ?fail = "s\<lparr>redis_client := Some (r\<lparr>get_raises := True\<rparr>)\<rparr>"
  let ?miss = "s\<lparr>redis_client := Some (r\<lparr>get_raises := False, store := (store r)(?k := None)\<rparr>)\<rparr>"
  have nf: "\<not> cache_hit rt ?fail weather_data loc use_cache"
    by (simp add: cache_hit_def get_cached_prediction_def redis_get_def)
  have nm: "\<not> cache_hit rt ?miss weather_data loc use_cache"
    by (simp add: cache_hit_def get_cached_prediction_def redis_get_def)
  have "fst (fresh_prediction rt ?fail weather_data loc ?key) =
        fst (fresh_prediction rt ?miss weather_data loc ?key)"
    using fresh_prediction_outcome [of ?fail ?miss rt weather_data loc ?key ?key] by simp
  with nf nm show "fst (predict_rainbow_probability rt ?fail weather_data loc use_cache) =
    fst (predict_rainbow_probability rt ?miss weather_data loc use_cache)"
    by (simp add: predict_rainbow_probability_cases)
next
  let ?k = "create_cache_key rt weather_data loc"
  let ?key = "if use_cache then Some ?k else None"
  let ?w1 = "s\<lparr>redis_client := Some (r\<lparr>setex_raises := True\<rparr>)\<rparr>"
  let ?w0 = "s\<lparr>redis_client := Some (r\<lparr>setex_raises := False\<rparr>)\<rparr>"
  have h: "cache_hit rt ?w1 weather_data loc use_cache = cache_hit rt ?w0 weather_data loc use_cache"
    by (simp add: cache_hit_def get_cached_prediction_def redis_get_def)
  have g: "get_cached_prediction (r\<lparr>setex_raises := True\<rparr>) ?k =
           get_cached_prediction (r\<lparr>setex_raises := False\<rparr>) ?k"
    by (simp add: get_cached_prediction_def redis_get_def)
  have "fst (fresh_prediction rt ?w1 weather_data loc ?key) =
        fst (fresh_prediction rt ?w0 weather_data loc ?key)"
    using fresh_prediction_outcome [of ?w1 ?w0 rt weather_data loc ?key ?key] by simp
  with h g show "fst (predict_rainbow_probability rt ?w1 weather_data loc use_cache) =
    fst (predict_rainbow_probability rt ?w0 weather_data loc use_cache)"
    by (simp add: predict_rainbow_probability_cases)
next
  let ?w1 = "s\<lparr>redis_client := Some (r\<lparr>setex_raises := True\<rparr>)\<rparr>"
  have "redis_client (fst (snd (fresh_prediction rt ?w1 weather_data loc key))) =
          Some (r\<lparr>setex_raises := True\<rparr>)" for key
    by (rule fresh_prediction_failed_write) simp_all
  then show "redis_client (fst (snd (predict_rainbow_probability rt ?w1 weather_data loc use_cache)))
     = Some (r\<lparr>setex_raises := True\<rparr>)"
    by (simp add: predict_rainbow_probability_cases)
qed



section \<open>Properties of the batch and time-series operations\<close>

lemma no_cache_outcome:
  "same_model s s' \<Longrightarrow>
   fst (predict_rainbow_probability rt s weather_data loc False) =
   fst (predict_rainbow_probability rt s' weather_data loc False)"
  using fresh_prediction_outcome [of s s' rt weather_data loc None None]
  by (simp add: predict_rainbow_probability_def same_model_def)

lemma fresh_prediction_no_key:
  "same_model (fst (snd (fresh_prediction rt s weather_data loc None))) s \<and>
   redis_client (fst (snd (fresh_prediction rt s weather_data loc None))) = redis_client s"
  by (simp add: fresh_prediction_def Let_def same_model_def split: sum.splits option.splits)

lemma no_cache_service:
  "same_model (fst (snd (predict_rainbow_probability rt s weather_data loc False))) s \<and>
   redis_client (fst (snd (predict_rainbow_probability rt s weather_data loc False))) =
     redis_client s"
  using fresh_prediction_no_key [of rt s weather_data loc]
  by (simp add: predict_rainbow_probability_def same_model_def)

lemma same_model_trans: "same_model a b \<Longrightarrow> same_model b c \<Longrightarrow> same_model a c"
  by (simp add: same_model_def)

lemma batch_loop_results:
  "same_model s' s \<Longrightarrow>
   fst (batch_loop rt loc i ws s' results) =
     results @ map (\<lambda>(j, w). item_result rt s loc j w) (enumerate i ws)"
proof (induction ws arbitrary: i s' results)
  case Nil
  then show ?case by simp
next
  case (Cons w ws)
  obtain outcome s1 w1 where p: "predict_rainbow_probability rt s' w loc False = (outcome, s1, w1)"
    by (cases "predict_rainbow_probability rt s' w loc False") auto
  have "same_model s1 s'"
    using no_cache_service [of rt s' w loc] p by simp
  from this Cons.prems have s1: "same_model s1 s" by (rule same_model_trans)
  have o: "outcome = fst (predict_rainbow_probability rt s w loc False)"
    using no_cache_outcome [OF Cons.prems, of rt w loc] p by simp
  let ?r = "case outcome of
              Inr res \<Rightarrow> res\<lparr>batch_index := Some i\<rparr>
            | Inl e \<Rightarrow> (error_result e)\<lparr>batch_index := Some i\<rparr>"
  obtain rs s2 rest' where b: "batch_loop rt loc (Suc i) ws s1 (results @ [?r]) = (rs, s2, rest')"
    by (cases "batch_loop rt loc (Suc i) ws s1 (results @ [?r])") auto
  have "rs = (results @ [?r]) @ map (\<lambda>(j, w). item_result rt s loc j w) (enumerate (Suc i) ws)"
    using Cons.IH [OF s1, of "Suc i" "results @ [?r]"] b by simp
  moreover have "?r = item_result rt s loc i w"
    by (simp add: item_result_def o)
  ultimately show ?case
    using p b by simp
qed

lemma batch_loop_redis:
  "redis_client (fst (snd (batch_loop rt loc i ws s results))) = redis_client s"
proof (induction ws arbitrary: i s results)
  case Nil
  then show ?case by simp
next
  case (Cons w ws)
  obtain outcome s1 w1 where p: "predict_rainbow_probability rt s w loc False = (outcome, s1, w1)"
    by (cases "predict_rainbow_probability rt s w loc False") auto
  let ?r = "case outcome of
              Inr res \<Rightarrow> res\<lparr>batch_index := Some i\<rparr>
            | Inl e \<Rightarrow> (error_result e)\<lparr>batch_index := Some i\<rparr>"
  obtain rs s2 rest' where b: "batch_loop rt loc (Suc i) ws s1 (results @ [?r]) = (rs, s2, rest')"
    by (cases "batch_loop rt loc (Suc i) ws s1 (results @ [?r])") auto
  have "redis_client s1 = redis_client s"
    using no_cache_service [of rt s w loc] p by simp
  moreover have "redis_client s2 = redis_client s1"
    using Cons.IH [of "Suc i" s1 "results @ [?r]"] b by simp
  ultimately show ?case
    using p b by simp
qed

text \<open>
  C3. A batch over N observations returns N results, in input order. The result at an
  index is the result of predicting that observation alone with caching disabled, with
  the index added; where that prediction raises, it is the entry with probability 0.0,
  class 0, confidence "low" and the error's message. No failure ends the batch. The cache
  plays no part: the results are those of a service without a cache client, and the
  client is left as it was.
\<close>

theorem C3_batch_results:
  "length (fst (predict_batch rt s ws loc)) = length ws
   \<and> (\<forall>i < length ws.
        fst (predict_batch rt s ws loc) ! i =
          (case fst (predict_rainbow_probability rt s (ws ! i) loc False) of
             Inr res \<Rightarrow> res\<lparr>batch_index := Some i\<rparr>
           | Inl e \<Rightarrow>
               empty_result\<lparr>probability := Some 0, prediction := Some 0,
                            confidence := Some ''low'', error := Some (str_of e),
                            batch_index := Some i\<rparr>))
   \<and> fst (predict_batch rt s ws loc) = fst (predict_batch rt (s\<lparr>redis_client := None\<rparr>) ws loc)
   \<and> redis_client (fst (snd (predict_batch rt s ws loc))) = redis_client s"
proof -
  have r: "fst (predict_batch rt s' ws loc) =
      map (\<lambda>(j, w). item_result rt s loc j w) (enumerate 0 ws)" if "same_model s' s" for s'
    unfolding predict_batch_def using batch_loop_results [OF that, of rt loc 0 ws "[]"] by simp
  have r0: "fst (predict_batch rt s ws loc) =
      map (\<lambda>(j, w). item_result rt s loc j w) (enumerate 0 ws)"
    by (rule r) (simp add: same_model_def)
  have r1: "fst (predict_batch rt (s\<lparr>redis_client := None\<rparr>) ws loc) =
      map (\<lambda>(j, w). item_result rt s loc j w) (enumerate 0 ws)"
    by (rule r) (simp add: same_model_def)
  have n: "fst (predict_batch rt s ws loc) ! i =
          (case fst (predict_rainbow_probability rt s (ws ! i) loc False) of
             Inr res \<Rightarrow> res\<lparr>batch_index := Some i\<rparr>
           | Inl e \<Rightarrow>
               empty_result\<lparr>probability := Some 0, prediction := Some 0,
                            confidence := Some ''low'', error := Some (str_of e),
                            batch_index := Some i\<rparr>)" if "i < length ws" for i
    using that
    by (simp add: r0 nth_enumerate_eq item_result_def error_result_def split: sum.splits)
  have c: "redis_client (fst (snd (predict_batch rt s ws loc))) = redis_client s"
    unfolding predict_batch_def by (rule batch_loop_redis)
  from r0 r1 n c show ?thesis by simp
qed

lemma forecast_loop_length:
  "fst (forecast_loop rt env cw loc hours s acc) = Inr ps \<Longrightarrow>
   length ps = length acc + length hours"
proof (induction hours arbitrary: s acc)
  case Nil
  then show ?case by simp
next
  case (Cons h hours)
  then show ?case
    by (auto split: sum.splits prod.splits)
qed

lemma time_series_returns:
  assumes a: "fst (predict_time_series rt env s current_weather forecast_hours loc) = Inr f"
  shows "1 \<le> forecast_hours \<and> length (forecast_predictions f) = nat forecast_hours"
proof -
  obtain out s' where l: "forecast_loop rt env current_weather loc
      (map int [0..<nat forecast_hours]) s [] = (out, s')"
    by (cases "forecast_loop rt env current_weather loc (map int [0..<nat forecast_hours]) s []")
  from a l obtain ps where ps: "out = Inr ps"
    by (cases out) (simp_all add: predict_time_series_def)
  from a l ps have ne: "map get_probability ps \<noteq> []"
    by (cases "map get_probability ps") (simp_all add: predict_time_series_def)
  from a l ps have fp: "forecast_predictions f = ps"
    by (auto simp: predict_time_series_def split: sum.splits)
  have "length ps = nat forecast_hours"
    using forecast_loop_length [of rt env current_weather loc "map int [0..<nat forecast_hours]" s "[]" ps]
      l ps by simp
  moreover from ne have "0 < length ps" by simp
  ultimately show ?thesis
    using fp by simp
qed

text \<open>
  C10. With forecast_hours = 0 (or negative) the prediction list is empty and the
  operation raises the ValueError of \<open>max\<close> on an empty list instead of returning a
  forecast. Whenever the operation returns a forecast, forecast_hours is at least 1 and
  the forecast has one prediction per hour.
\<close>

theorem C10_empty_forecast_raises:
  "(forecast_hours \<le> 0 \<longrightarrow>
      predict_time_series rt env s current_weather forecast_hours loc =
        (Inl (ValueError empty_max_message), s))
   \<and> (\<forall>f. fst (predict_time_series rt env s current_weather forecast_hours loc) = Inr f \<longrightarrow>
          1 \<le> forecast_hours \<and> length (forecast_predictions f) = nat forecast_hours)"
  using time_series_returns [of rt env s current_weather forecast_hours loc]
  by (simp add: predict_time_series_def)

theorem C3_batch_results_witness:
  "length (fst (predict_batch demo_runtime demo_service
             [demo_weather, poisoned_weather, demo_weather] None)) = 3
   \<and> fst (predict_batch demo_runtime demo_service
             [demo_weather, poisoned_weather, demo_weather] None) ! 1 =
       empty_result\<lparr>probability := Some 0, prediction := Some 0, confidence := Some ''low'',
                    error := Some ''not supported between instances'',
                    batch_index := Some 1\<rparr>
   \<and> map (\<lambda>r. (probability r, confidence r, batch_index r))
         (fst (predict_batch demo_runtime demo_service
                 [demo_weather, poisoned_weather, demo_weather] None)) =
       [(Some (1 / 2), Some ''medium'', Some 0), (Some 0, Some ''low'', Some 1),
        (Some (1 / 2), Some ''medium'', Some 2)]"
proof -
  let ?ws = "[demo_weather, poisoned_weather, demo_weather]"
  have e: "fst (predict_rainbow_probability demo_runtime demo_service (?ws ! 1) None False) =
             Inl (TypeError ''not supported between instances'')"
    by code_simp
  have m: "map (\<lambda>r. (probability r, confidence r, batch_index r))
         (fst (predict_batch demo_runtime demo_service ?ws None)) =
       [(Some (1 / 2), Some ''medium'', Some 0), (Some 0, Some ''low'', Some 1),
        (Some (1 / 2), Some ''medium'', Some 2)]"
    by code_simp
  have i: "(1::nat) < length ?ws" by simp
  from C3_batch_results [of demo_runtime demo_service ?ws None]
  have l: "length (fst (predict_batch demo_runtime demo_service ?ws None)) = length ?ws"
    and n: "\<forall>i < length ?ws.
        fst (predict_batch demo_runtime demo_service ?ws None) ! i =
          (case fst (predict_rainbow_probability demo_runtime demo_service (?ws ! i) None False) of
             Inr res \<Rightarrow> res\<lparr>batch_index := Some i\<rparr>
           | Inl e \<Rightarrow>
               empty_result\<lparr>probability := Some 0, prediction := Some 0,
                            confidence := Some ''low'', error := Some (str_of e),
                            batch_index := Some i\<rparr>)"
    by blast+
  from n i have "fst (predict_batch demo_runtime demo_service ?ws None) ! 1 =
          (case fst (predict_rainbow_probability demo_runtime demo_service (?ws ! 1) None False) of
             Inr res \<Rightarrow> res\<lparr>batch_index := Some 1\<rparr>
           | Inl e \<Rightarrow>
               empty_result\<lparr>probability := Some 0, prediction := Some 0,
                            confidence := Some ''low'', error := Some (str_of e),
                            batch_index := Some 1\<rparr>)"
    by blast
  with e have "fst (predict_batch demo_runtime demo_service ?ws None) ! 1 =
       empty_result\<lparr>probability := Some 0, prediction := Some 0, confidence := Some ''low'',
                    error := Some ''not supported between instances'',
                    batch_index := Some 1\<rparr>"
    by simp
  with l m show ?thesis by simp
qed

theorem C10_empty_forecast_raises_witness:
  "predict_time_series demo_runtime demo_environment demo_service demo_weather 0 None =
     (Inl (ValueError empty_max_message), demo_service)
   \<and> (\<exists>f. fst (predict_time_series demo_runtime demo_environment demo_service demo_weather 2
                 None) = Inr f \<and>
           length (forecast_predictions f) = 2 \<and> forecast_max_probability f = 1 / 2)
   \<and> (1::int) \<le> 2"
proof -
  have "case fst (predict_time_series demo_runtime demo_environment demo_service demo_weather 2
                 None) of Inl e \<Rightarrow> False
        | Inr f \<Rightarrow> forecast_max_probability f = 1 / 2"
    by code_simp
  then obtain f where f: "fst (predict_time_series demo_runtime demo_environment demo_service
      demo_weather 2 None) = Inr f" and m: "forecast_max_probability f = 1 / 2"
    by (cases "fst (predict_time_series demo_runtime demo_environment demo_service
      demo_weather 2 None)") simp_all
  from C10_empty_forecast_raises
    [of 2 demo_runtime demo_environment demo_service demo_weather None] f
  have two: "(1::int) \<le> 2 \<and> length (forecast_predictions f) = nat 2" by blast
  from C10_empty_forecast_raises
    [of 0 demo_runtime demo_environment demo_service demo_weather None]
  have zero: "predict_time_series demo_runtime demo_environment demo_service demo_weather 0 None =
     (Inl (ValueError empty_max_message), demo_service)" by simp
  from two f m zero show ?thesis by auto
qed

end
